theory Spec2Isabelle
  imports Complex_Main
begin

section \<open>Arithmetic of the model\<close>

text \<open>
  The solver of \<^verbatim>\<open>P3P_Kneip.cpp\<close> computes on \<^verbatim>\<open>double\<close> and \<^verbatim>\<open>std::complex<double>\<close>.
  The embedding reads every \<^verbatim>\<open>double\<close> as a \<^typ>\<open>real\<close> and every complex value as a
  \<^typ>\<open>complex\<close>: it is the exact-arithmetic reading of the code. It agrees with the program
  wherever the operations are defined on reals (a divisor that is not zero, a radicand that
  is not negative); rounding, NaN and infinities are outside the model, and a property that
  depends on them carries the hypothesis that keeps the computation inside the reals.
  \<^verbatim>\<open>pow(x, 2)\<close> on a \<^verbatim>\<open>double\<close> is \<open>x\<^sup>2\<close>.
\<close>

subsection \<open>Fixed-size Eigen vectors and matrices\<close>

text \<open>\<^verbatim>\<open>Vector3d\<close>; \<^verbatim>\<open>Matrix3d\<close> as its three rows.\<close>

type_synonym vec3 = "real \<times> real \<times> real"
type_synonym mat3 = "vec3 \<times> vec3 \<times> vec3"

text \<open>\<^verbatim>\<open>Matrix<double, 4, 1>\<close> and \<^verbatim>\<open>Matrix<double, 5, 1>\<close>.\<close>

type_synonym vec4 = "real \<times> real \<times> real \<times> real"
type_synonym vec5 = "real \<times> real \<times> real \<times> real \<times> real"

text \<open>Coefficient access \<^verbatim>\<open>v[i]\<close>; every index of the source is a constant in range.\<close>

fun vget :: "vec3 \<Rightarrow> nat \<Rightarrow> real" where
  "vget (x, y, z) i = (if i = 0 then x else if i = 1 then y else z)"

fun v4get :: "vec4 \<Rightarrow> nat \<Rightarrow> real" where
  "v4get (a, b, c, d) i = (if i = 0 then a else if i = 1 then b else if i = 2 then c else d)"

fun v4set :: "vec4 \<Rightarrow> nat \<Rightarrow> real \<Rightarrow> vec4" where
  "v4set (a, b, c, d) i x =
     (if i = 0 then (x, b, c, d) else if i = 1 then (a, x, c, d)
      else if i = 2 then (a, b, x, d) else (a, b, c, x))"

fun v5get :: "vec5 \<Rightarrow> nat \<Rightarrow> real" where
  "v5get (a, b, c, d, e) i =
     (if i = 0 then a else if i = 1 then b else if i = 2 then c else if i = 3 then d else e)"

fun vadd :: "vec3 \<Rightarrow> vec3 \<Rightarrow> vec3" where
  "vadd (a1, a2, a3) (b1, b2, b3) = (a1 + b1, a2 + b2, a3 + b3)"

fun vsub :: "vec3 \<Rightarrow> vec3 \<Rightarrow> vec3" where
  "vsub (a1, a2, a3) (b1, b2, b3) = (a1 - b1, a2 - b2, a3 - b3)"

fun vdiv :: "vec3 \<Rightarrow> real \<Rightarrow> vec3" where
  "vdiv (a1, a2, a3) s = (a1 / s, a2 / s, a3 / s)"

fun dot :: "vec3 \<Rightarrow> vec3 \<Rightarrow> real" where
  "dot (a1, a2, a3) (b1, b2, b3) = a1 * b1 + a2 * b2 + a3 * b3"

fun cross :: "vec3 \<Rightarrow> vec3 \<Rightarrow> vec3" where
  "cross (a1, a2, a3) (b1, b2, b3) = (a2 * b3 - a3 * b2, a3 * b1 - a1 * b3, a1 * b2 - a2 * b1)"

text \<open>\<^verbatim>\<open>v.norm()\<close>: the square root of the sum of the squared coefficients.\<close>

definition vnorm :: "vec3 \<Rightarrow> real" where
  "vnorm v = sqrt (dot v v)"

text \<open>\<^verbatim>\<open>M.col(j)\<close>.\<close>

fun col :: "mat3 \<Rightarrow> nat \<Rightarrow> vec3" where
  "col (r0, r1, r2) j = (vget r0 j, vget r1 j, vget r2 j)"

text \<open>The matrix after \<^verbatim>\<open>M.col(0) = c0; M.col(1) = c1; M.col(2) = c2;\<close>.\<close>

fun mat_of_cols :: "vec3 \<Rightarrow> vec3 \<Rightarrow> vec3 \<Rightarrow> mat3" where
  "mat_of_cols (a1, a2, a3) (b1, b2, b3) (c1, c2, c3) = ((a1, b1, c1), (a2, b2, c2), (a3, b3, c3))"

text \<open>\<^verbatim>\<open>M.transpose()\<close>, \<^verbatim>\<open>M.transposeInPlace()\<close>.\<close>

definition transpose_mat :: "mat3 \<Rightarrow> mat3" where
  "transpose_mat M = (col M 0, col M 1, col M 2)"

fun mat_vec :: "mat3 \<Rightarrow> vec3 \<Rightarrow> vec3" where
  "mat_vec (r0, r1, r2) v = (dot r0 v, dot r1 v, dot r2 v)"

definition mat_mul :: "mat3 \<Rightarrow> mat3 \<Rightarrow> mat3" where
  "mat_mul M K = transpose_mat (mat_vec M (col K 0), mat_vec M (col K 1), mat_vec M (col K 2))"

subsection \<open>Complex functions of the standard library\<close>

text \<open>
  \<^verbatim>\<open>std::pow(const complex<double>&, const double&)\<close>: the principal branch
  \<open>exp (y * log x)\<close>, in polar form the modulus \<open>|x| powr y\<close> at the angle \<open>y * arg x\<close>, with
  \<open>arg x\<close> in \<open>(-pi, pi]\<close>. \<^verbatim>\<open>std::sqrt\<close> on a complex is the principal square root
  \<^const>\<open>csqrt\<close>.
\<close>

definition cpow :: "complex \<Rightarrow> real \<Rightarrow> complex" where
  "cpow x y = rcis (cmod x powr y) (y * Arg x)"

section \<open>The quartic solver\<close>

text \<open>The local variables of \<^verbatim>\<open>P3P_Kneip::solveQuartic\<close> when it returns.\<close>

record quartic_vars =
  q_alpha :: real
  q_beta :: real
  q_gamma :: real
  q_P :: complex
  q_Q :: complex
  q_R :: complex
  q_U :: complex
  q_y :: complex
  q_w :: complex
  q_realRoots :: vec4

text \<open>
  The body of \<^verbatim>\<open>solveQuartic\<close>, statement by statement. \<open>realRoots\<close> is the caller's
  vector, written through the reference.
\<close>

definition solveQuartic_vars :: "vec5 \<Rightarrow> vec4 \<Rightarrow> quartic_vars" where
  "solveQuartic_vars factors realRoots =
    (let A = v5get factors 0;
         B = v5get factors 1;
         C = v5get factors 2;
         D = v5get factors 3;
         E = v5get factors 4;
         A_pw2 = A * A;
         B_pw2 = B * B;
         A_pw3 = A_pw2 * A;
         B_pw3 = B_pw2 * B;
         A_pw4 = A_pw3 * A;
         B_pw4 = B_pw3 * B;
         alpha = - 3 * B_pw2 / (8 * A_pw2) + C / A;
         beta = B_pw3 / (8 * A_pw3) - B * C / (2 * A_pw2) + D / A;
         gamma = - 3 * B_pw4 / (256 * A_pw4) + B_pw2 * C / (16 * A_pw3)
                   - B * D / (4 * A_pw2) + E / A;
         alpha_pw2 = alpha * alpha;
         alpha_pw3 = alpha_pw2 * alpha;
         P = Complex (- alpha_pw2 / 12 - gamma) 0;
         Q = Complex (- alpha_pw3 / 108 + alpha * gamma / 3 - beta\<^sup>2 / 8) 0;
         R = - Q / 2 + csqrt (cpow Q 2 / 4 + cpow P 3 / 27);
         U = cpow R (1 / 3);
         y = (if Re U = 0
              then complex_of_real (- 5 * alpha / 6) - cpow Q (1 / 3)
              else complex_of_real (- 5 * alpha / 6) - P / (3 * U) + U);
         w = csqrt (complex_of_real alpha + 2 * y);
         temp = complex_of_real (- B / (4 * A))
                  + (1 / 2) * (w + csqrt (- (complex_of_real (3 * alpha) + 2 * y
                                              + complex_of_real (2 * beta) / w)));
         realRoots = v4set realRoots 0 (Re temp);
         temp = complex_of_real (- B / (4 * A))
                  + (1 / 2) * (w - csqrt (- (complex_of_real (3 * alpha) + 2 * y
                                              + complex_of_real (2 * beta) / w)));
         realRoots = v4set realRoots 1 (Re temp);
         temp = complex_of_real (- B / (4 * A))
                  + (1 / 2) * (- w + csqrt (- (complex_of_real (3 * alpha) + 2 * y
                                                - complex_of_real (2 * beta) / w)));
         realRoots = v4set realRoots 2 (Re temp);
         temp = complex_of_real (- B / (4 * A))
                  + (1 / 2) * (- w - csqrt (- (complex_of_real (3 * alpha) + 2 * y
                                                - complex_of_real (2 * beta) / w)));
         realRoots = v4set realRoots 3 (Re temp)
     in \<lparr>q_alpha = alpha, q_beta = beta, q_gamma = gamma, q_P = P, q_Q = Q, q_R = R,
         q_U = U, q_y = y, q_w = w, q_realRoots = realRoots\<rparr>)"

text \<open>\<^verbatim>\<open>solveQuartic\<close>: the status it returns (always 0) and the roots it has written.\<close>

definition solveQuartic :: "vec5 \<Rightarrow> vec4 \<Rightarrow> int \<times> vec4" where
  "solveQuartic factors realRoots = (0, q_realRoots (solveQuartic_vars factors realRoots))"

section \<open>The P3P pose solver\<close>

subsection \<open>Intermediate camera frame\<close>

text \<open>
  Lines 59--68 of \<^verbatim>\<open>computePoses\<close>, and again lines 79--86: the frame \<open>e1, e2, e3\<close> of two
  feature vectors, stored as the columns of \<open>T\<close>, which is then transposed in place (the three
  column assignments overwrite the whole matrix).
\<close>

definition camera_frame :: "vec3 \<Rightarrow> vec3 \<Rightarrow> mat3" where
  "camera_frame f1 f2 =
    (let e1 = f1;
         e3 = cross f1 f2;
         e3 = vdiv e3 (vnorm e3);
         e2 = cross e3 e1
     in transpose_mat (mat_of_cols e1 e2 e3))"

text \<open>The variables the rest of \<^verbatim>\<open>computePoses\<close> reads after the block of lines 53--94.\<close>

record frame_vars =
  fr_f1 :: vec3
  fr_f2 :: vec3
  fr_f3 :: vec3
  fr_T :: mat3
  fr_P1 :: vec3
  fr_P2 :: vec3
  fr_P3 :: vec3

text \<open>
  Lines 53--94: the feature vectors are extracted, \<open>f3\<close> is expressed in the frame of
  \<open>f1, f2\<close>, and the test \<^verbatim>\<open>if (f3[2] > 0)\<close> decides whether the first two correspondences
  change places. \<open>P1, P2, P3\<close> are the world points extracted on lines 38--40.
\<close>

definition select_frame :: "mat3 \<Rightarrow> mat3 \<Rightarrow> vec3 \<Rightarrow> vec3 \<Rightarrow> vec3 \<Rightarrow> frame_vars" where
  "select_frame featureVectors worldPoints P1 P2 P3 =
    (let f1 = col featureVectors 0;
         f2 = col featureVectors 1;
         f3 = col featureVectors 2;
         T = camera_frame f1 f2;
         f3 = mat_vec T f3
     in if vget f3 2 > 0
        then
          (let f1 = col featureVectors 1;
               f2 = col featureVectors 0;
               f3 = col featureVectors 2;
               T = camera_frame f1 f2;
               f3 = mat_vec T f3;
               P1 = col worldPoints 1;
               P2 = col worldPoints 0;
               P3 = col worldPoints 2
           in \<lparr>fr_f1 = f1, fr_f2 = f2, fr_f3 = f3, fr_T = T,
               fr_P1 = P1, fr_P2 = P2, fr_P3 = P3\<rparr>)
        else \<lparr>fr_f1 = f1, fr_f2 = f2, fr_f3 = f3, fr_T = T,
              fr_P1 = P1, fr_P2 = P2, fr_P3 = P3\<rparr>)"

subsection \<open>Intermediate world frame\<close>

text \<open>Lines 96--107: the frame \<open>n1, n2, n3\<close> with \<open>P1\<close> as origin, transposed.\<close>

definition world_frame :: "vec3 \<Rightarrow> vec3 \<Rightarrow> vec3 \<Rightarrow> mat3" where
  "world_frame P1 P2 P3 =
    (let n1 = vsub P2 P1;
         n1 = vdiv n1 (vnorm n1);
         n3 = cross n1 (vsub P3 P1);
         n3 = vdiv n3 (vnorm n3);
         n2 = cross n3 n1
     in transpose_mat (mat_of_cols n1 n2 n3))"

subsection \<open>Known parameters\<close>

record known_params =
  kp_d_12 :: real
  kp_f_1 :: real
  kp_f_2 :: real
  kp_p_1 :: real
  kp_p_2 :: real
  kp_cos_beta :: real
  kp_b :: real

text \<open>Lines 109--129.\<close>

definition extract_params :: "frame_vars \<Rightarrow> mat3 \<Rightarrow> known_params" where
  "extract_params fr N =
    (let f1 = fr_f1 fr; f2 = fr_f2 fr; f3 = fr_f3 fr;
         P1 = fr_P1 fr; P2 = fr_P2 fr; P3 = fr_P3 fr;
         P3 = mat_vec N (vsub P3 P1);
         d_12 = vnorm (vsub P2 P1);
         f_1 = vget f3 0 / vget f3 2;
         f_2 = vget f3 1 / vget f3 2;
         p_1 = vget P3 0;
         p_2 = vget P3 1;
         cos_beta = dot f1 f2;
         b = 1 / (1 - cos_beta\<^sup>2) - 1;
         b = (if cos_beta < 0 then - sqrt b else sqrt b)
     in \<lparr>kp_d_12 = d_12, kp_f_1 = f_1, kp_f_2 = f_2, kp_p_1 = p_1, kp_p_2 = p_2,
         kp_cos_beta = cos_beta, kp_b = b\<rparr>)"

subsection \<open>Factors of the quartic\<close>

text \<open>Lines 131--153.\<close>

definition quartic_factors :: "known_params \<Rightarrow> vec5" where
  "quartic_factors kp =
    (let d_12 = kp_d_12 kp; f_1 = kp_f_1 kp; f_2 = kp_f_2 kp;
         p_1 = kp_p_1 kp; p_2 = kp_p_2 kp; b = kp_b kp;
         f_1_pw2 = f_1\<^sup>2;
         f_2_pw2 = f_2\<^sup>2;
         p_1_pw2 = p_1\<^sup>2;
         p_1_pw3 = p_1_pw2 * p_1;
         p_1_pw4 = p_1_pw3 * p_1;
         p_2_pw2 = p_2\<^sup>2;
         p_2_pw3 = p_2_pw2 * p_2;
         p_2_pw4 = p_2_pw3 * p_2;
         d_12_pw2 = d_12\<^sup>2;
         b_pw2 = b\<^sup>2
     in (- f_2_pw2 * p_2_pw4 - p_2_pw4 * f_1_pw2 - p_2_pw4,
         2 * p_2_pw3 * d_12 * b + 2 * f_2_pw2 * p_2_pw3 * d_12 * b
           - 2 * f_2 * p_2_pw3 * f_1 * d_12,
         - f_2_pw2 * p_2_pw2 * p_1_pw2 - f_2_pw2 * p_2_pw2 * d_12_pw2 * b_pw2
           - f_2_pw2 * p_2_pw2 * d_12_pw2 + f_2_pw2 * p_2_pw4 + p_2_pw4 * f_1_pw2
           + 2 * p_1 * p_2_pw2 * d_12 + 2 * f_1 * f_2 * p_1 * p_2_pw2 * d_12 * b
           - p_2_pw2 * p_1_pw2 * f_1_pw2 + 2 * p_1 * p_2_pw2 * f_2_pw2 * d_12
           - p_2_pw2 * d_12_pw2 * b_pw2 - 2 * p_1_pw2 * p_2_pw2,
         2 * p_1_pw2 * p_2 * d_12 * b + 2 * f_2 * p_2_pw3 * f_1 * d_12
           - 2 * f_2_pw2 * p_2_pw3 * d_12 * b - 2 * p_1 * p_2 * d_12_pw2 * b,
         - 2 * f_2 * p_2_pw2 * f_1 * p_1 * d_12 * b + f_2_pw2 * p_2_pw2 * d_12_pw2
           + 2 * p_1_pw3 * d_12 - p_1_pw2 * d_12_pw2 + f_2_pw2 * p_2_pw2 * p_1_pw2
           - p_1_pw4 - 2 * f_2_pw2 * p_2_pw2 * p_1 * d_12 + p_2_pw2 * f_1_pw2 * p_1_pw2
           + f_2_pw2 * p_2_pw2 * d_12_pw2 * b_pw2))"

subsection \<open>Back-substitution of one root\<close>

text \<open>The variables of one iteration of the loop of lines 161--192.\<close>

record backsub_vars =
  bs_cot_alpha :: real
  bs_cos_theta :: real
  bs_sin_theta :: real
  bs_sin_alpha :: real
  bs_cos_alpha :: real
  bs_C :: vec3
  bs_R :: mat3

text \<open>
  Lines 163--190 for the root \<open>root_i = realRoots[i]\<close>. The matrix written with \<^verbatim>\<open>R << ...\<close>
  is filled row by row.
\<close>

definition backsub :: "known_params \<Rightarrow> vec3 \<Rightarrow> mat3 \<Rightarrow> mat3 \<Rightarrow> real \<Rightarrow> backsub_vars" where
  "backsub kp P1 N T root_i =
    (let d_12 = kp_d_12 kp; f_1 = kp_f_1 kp; f_2 = kp_f_2 kp;
         p_1 = kp_p_1 kp; p_2 = kp_p_2 kp; b = kp_b kp;
         cot_alpha = (- f_1 * p_1 / f_2 - root_i * p_2 + d_12 * b)
                       / (- f_1 * root_i * p_2 / f_2 + p_1 - d_12);
         cos_theta = root_i;
         sin_theta = sqrt (1 - root_i\<^sup>2);
         sin_alpha = sqrt (1 / (cot_alpha\<^sup>2 + 1));
         cos_alpha = sqrt (1 - sin_alpha\<^sup>2);
         cos_alpha = (if cot_alpha < 0 then - cos_alpha else cos_alpha);
         C = (d_12 * cos_alpha * (sin_alpha * b + cos_alpha),
              cos_theta * d_12 * sin_alpha * (sin_alpha * b + cos_alpha),
              sin_theta * d_12 * sin_alpha * (sin_alpha * b + cos_alpha));
         C = vadd P1 (mat_vec (transpose_mat N) C);
         R = ((- cos_alpha, - sin_alpha * cos_theta, - sin_alpha * sin_theta),
              (sin_alpha, - cos_alpha * cos_theta, - cos_alpha * sin_theta),
              (0, - sin_theta, cos_theta));
         R = mat_mul (mat_mul (transpose_mat N) (transpose_mat R)) T
     in \<lparr>bs_cot_alpha = cot_alpha, bs_cos_theta = cos_theta, bs_sin_theta = sin_theta,
         bs_sin_alpha = sin_alpha, bs_cos_alpha = cos_alpha, bs_C = C, bs_R = R\<rparr>)"

text \<open>
  A candidate pose: the \<^verbatim>\<open>Matrix<double, 3, 4>\<close> \<open>gwc\<close>, whose left 3x3 block is the
  orientation \<open>R\<close> and whose last column is the position \<open>C\<close>. Each iteration writes both
  blocks, that is every coefficient of \<open>gwc\<close>, before the copy is appended.
\<close>

type_synonym pose = "mat3 \<times> vec3"

text \<open>
  The loop \<^verbatim>\<open>for (int i = 0; i < 4; i++)\<close>, from the counter \<open>i\<close> on;
  \<^verbatim>\<open>solutions.emplace_back(gwc)\<close> appends to the caller's vector.
\<close>

function backsubstitution ::
  "nat \<Rightarrow> known_params \<Rightarrow> vec3 \<Rightarrow> mat3 \<Rightarrow> mat3 \<Rightarrow> vec4 \<Rightarrow> pose list \<Rightarrow> pose list" where
  "backsubstitution i kp P1 N T realRoots solutions =
    (if i < 4
     then (let bs = backsub kp P1 N T (v4get realRoots i);
               gwc = (bs_R bs, bs_C bs)
           in backsubstitution (i + 1) kp P1 N T realRoots (solutions @ [gwc]))
     else solutions)"
  by pat_completeness auto
termination
  by (relation "measure (\<lambda>(i, kp, P1, N, T, realRoots, solutions). 4 - i)") auto

declare backsubstitution.simps [simp del]

subsection \<open>computePoses\<close>

text \<open>
  \<^verbatim>\<open>P3P_Kneip::computePoses\<close>: the status returned and the caller's \<open>solutions\<close> vector
  afterwards. \<open>realRoots\<close> is declared without a value on line 156 and handed to
  \<^verbatim>\<open>solveQuartic\<close>, which writes its four coefficients; the model starts it at zero.
\<close>

definition computePoses :: "mat3 \<Rightarrow> mat3 \<Rightarrow> pose list \<Rightarrow> int \<times> pose list" where
  "computePoses featureVectors worldPoints solutions =
    (let P1 = col worldPoints 0;
         P2 = col worldPoints 1;
         P3 = col worldPoints 2;
         temp1 = vsub P2 P1;
         temp2 = vsub P3 P1
     in if vnorm (cross temp1 temp2) = 0
        then (- 1, solutions)
        else
          (let fr = select_frame featureVectors worldPoints P1 P2 P3;
               N = world_frame (fr_P1 fr) (fr_P2 fr) (fr_P3 fr);
               kp = extract_params fr N;
               factors = quartic_factors kp;
               realRoots = snd (solveQuartic factors (0, 0, 0, 0))
           in (0, backsubstitution 0 kp (fr_P1 fr) N (fr_T fr) realRoots solutions)))"

section \<open>The quartic solver in the words of the specification\<close>











section \<open>Example inputs\<close>

text \<open>Concrete values at which the theorems below are instantiated.\<close>

abbreviation identity_mat :: mat3 where
  "identity_mat \<equiv> ((1, 0, 0), (0, 1, 0), (0, 0, 1))"

abbreviation example_params :: known_params where
  "example_params \<equiv> \<lparr>kp_d_12 = 1, kp_f_1 = 0, kp_f_2 = 1, kp_p_1 = 0, kp_p_2 = 1,
                       kp_cos_beta = 0, kp_b = 0\<rparr>"

abbreviation example_pose :: pose where
  "example_pose \<equiv> (identity_mat, (0, 0, 0))"

abbreviation example_directions :: mat3 where
  "example_directions \<equiv> mat_of_cols (1, 0, 0) (0, 1, 0) (0, 0, 1)"

abbreviation collinear_worldPoints :: mat3 where
  "collinear_worldPoints \<equiv> mat_of_cols (0, 0, 0) (1, 0, 0) (2, 0, 0)"

abbreviation example_worldPoints :: mat3 where
  "example_worldPoints \<equiv> mat_of_cols (0, 0, 0) (1, 0, 0) (0, 1, 0)"





section \<open>Facts about the arithmetic\<close>

lemma v4set_all: "v4set (v4set (v4set (v4set rr 0 a) 1 b) 2 c) 3 d = (a, b, c, d)"
  by (cases rr) simp

lemma col_mat_of_cols:
  "col (mat_of_cols a b c) 0 = a" "col (mat_of_cols a b c) 1 = b" "col (mat_of_cols a b c) 2 = c"
  by (cases a; cases b; cases c; simp)+



lemma dot_self_eq_0_iff: "dot a a = 0 \<longleftrightarrow> a = (0, 0, 0)"
  by (cases a) (auto simp: add_nonneg_eq_0_iff)

lemma vnorm_eq_0_iff: "vnorm a = 0 \<longleftrightarrow> a = (0, 0, 0)"
  by (simp add: vnorm_def dot_self_eq_0_iff)


text \<open>
  The principal power with exponent 2 or 3 is the square or the cube, and the power with
  exponent 1/3 is the principal cube root: its cube is the argument, and its angle is a
  third of the argument's.
\<close>

lemma cpow_2: "cpow z 2 = z\<^sup>2"
proof -
  have m: "cmod z powr 2 = (cmod z)\<^sup>2"
    by (cases "z = 0") (simp_all add: powr_numeral)
  have "z\<^sup>2 = (rcis (cmod z) (Arg z))\<^sup>2" by (simp add: rcis_cmod_Arg)
  also have "\<dots> = rcis ((cmod z)\<^sup>2) (2 * Arg z)" by (simp add: DeMoivre2)
  finally show ?thesis by (simp add: cpow_def m)
qed

lemma cpow_3: "cpow z 3 = z ^ 3"
proof -
  have m: "cmod z powr 3 = (cmod z) ^ 3"
    by (cases "z = 0") (simp_all add: powr_numeral)
  have "z ^ 3 = (rcis (cmod z) (Arg z)) ^ 3" by (simp add: rcis_cmod_Arg)
  also have "\<dots> = rcis ((cmod z) ^ 3) (3 * Arg z)" by (simp add: DeMoivre2)
  finally show ?thesis by (simp add: cpow_def m)
qed

lemma cpow_third_cubed: "(cpow z (1 / 3)) ^ 3 = z"
proof -
  have "(cmod z powr (1 / 3)) ^ 3 = cmod z"
  proof (cases "z = 0")
    case True
    then show ?thesis by simp
  next
    case False
    then have "(cmod z powr (1 / 3)) ^ 3 = cmod z powr ((1 / 3) * 3)"
      by (simp add: powr_powr flip: powr_numeral)
    then show ?thesis using False by simp
  qed
  then have "(cpow z (1 / 3)) ^ 3 = rcis (cmod z) (Arg z)"
    by (simp add: cpow_def DeMoivre2)
  then show ?thesis by (simp add: rcis_cmod_Arg)
qed

lemma Arg_cpow_third:
  assumes "z \<noteq> 0"
  shows "Arg (cpow z (1 / 3)) = Arg z / 3"
proof (rule cis_Arg_unique)
  have "0 < cmod z powr (1 / 3)" using assms by simp
  then have "sgn (complex_of_real (cmod z powr (1 / 3))) = 1"
    unfolding sgn_of_real by simp
  then show "sgn (cpow z (1 / 3)) = cis (Arg z / 3)"
    by (simp add: cpow_def rcis_def sgn_mult)
  show "- pi < Arg z / 3" using Arg_bounded [of z] pi_gt_zero by linarith
  show "Arg z / 3 \<le> pi" using Arg_bounded [of z] pi_gt_zero by linarith
qed

lemma Re_cpow_third_eq_0_iff: "Re (cpow z (1 / 3)) = 0 \<longleftrightarrow> z = 0"
proof (cases "z = 0")
  case True
  then show ?thesis by (simp add: cpow_def)
next
  case False
  have "- (pi / 2) < Arg z / 3" "Arg z / 3 < pi / 2"
    using Arg_bounded [of z] pi_gt_zero by linarith+
  then have "0 < cos (Arg z / 3)" by (rule cos_gt_zero_pi)
  moreover have "0 < cmod z powr (1 / 3)" using False by simp
  ultimately have "0 < Re (cpow z (1 / 3))" by (simp add: cpow_def)
  with False show ?thesis by simp
qed




section \<open>Properties of the quartic solver\<close>

subsection \<open>The variables of solveQuartic, one by one\<close>

lemma solveQuartic_vars_alpha:
  "q_alpha (solveQuartic_vars (A, B, C, D, E) rr) = - 3 * (B * B) / (8 * (A * A)) + C / A"
  unfolding solveQuartic_vars_def Let_def
  by (simp only: quartic_vars.select_convs v5get.simps) simp

lemma solveQuartic_vars_beta:
  "q_beta (solveQuartic_vars (A, B, C, D, E) rr) =
     B * B * B / (8 * (A * A * A)) - B * C / (2 * (A * A)) + D / A"
  unfolding solveQuartic_vars_def Let_def
  by (simp only: quartic_vars.select_convs v5get.simps) simp

lemma solveQuartic_vars_gamma:
  "q_gamma (solveQuartic_vars (A, B, C, D, E) rr) =
     - 3 * (B * B * B * B) / (256 * (A * A * A * A)) + B * B * C / (16 * (A * A * A))
       - B * D / (4 * (A * A)) + E / A"
  unfolding solveQuartic_vars_def Let_def
  by (simp only: quartic_vars.select_convs v5get.simps) simp

lemma solveQuartic_vars_P:
  "q_P (solveQuartic_vars f rr) =
     Complex (- (q_alpha (solveQuartic_vars f rr) * q_alpha (solveQuartic_vars f rr)) / 12
                - q_gamma (solveQuartic_vars f rr)) 0"
  unfolding solveQuartic_vars_def Let_def
  by (simp only: quartic_vars.select_convs)

lemma solveQuartic_vars_Q:
  "q_Q (solveQuartic_vars f rr) =
     Complex (- (q_alpha (solveQuartic_vars f rr) * q_alpha (solveQuartic_vars f rr)
                   * q_alpha (solveQuartic_vars f rr)) / 108
                + q_alpha (solveQuartic_vars f rr) * q_gamma (solveQuartic_vars f rr) / 3
                - (q_beta (solveQuartic_vars f rr))\<^sup>2 / 8) 0"
  unfolding solveQuartic_vars_def Let_def
  by (simp only: quartic_vars.select_convs)

lemma solveQuartic_vars_R:
  "q_R (solveQuartic_vars f rr) =
     - q_Q (solveQuartic_vars f rr) / 2
       + csqrt (cpow (q_Q (solveQuartic_vars f rr)) 2 / 4
                  + cpow (q_P (solveQuartic_vars f rr)) 3 / 27)"
  unfolding solveQuartic_vars_def Let_def
  by (simp only: quartic_vars.select_convs)

lemma solveQuartic_vars_U:
  "q_U (solveQuartic_vars f rr) = cpow (q_R (solveQuartic_vars f rr)) (1 / 3)"
  unfolding solveQuartic_vars_def Let_def
  by (simp only: quartic_vars.select_convs)

lemma solveQuartic_vars_y:
  "q_y (solveQuartic_vars f rr) =
     (if Re (q_U (solveQuartic_vars f rr)) = 0
      then complex_of_real (- 5 * q_alpha (solveQuartic_vars f rr) / 6)
             - cpow (q_Q (solveQuartic_vars f rr)) (1 / 3)
      else complex_of_real (- 5 * q_alpha (solveQuartic_vars f rr) / 6)
             - q_P (solveQuartic_vars f rr) / (3 * q_U (solveQuartic_vars f rr))
             + q_U (solveQuartic_vars f rr))"
  unfolding solveQuartic_vars_def Let_def
  by (simp only: quartic_vars.select_convs)



text \<open>
  solveQuartic overwrites all four coefficients of \<open>realRoots\<close>: the value the vector had
  before the call, which computePoses leaves unset, does not reach the result.
\<close>

lemma solveQuartic_vars_realRoots_indep:
  "q_realRoots (solveQuartic_vars f rr) = q_realRoots (solveQuartic_vars f rr')"
  unfolding solveQuartic_vars_def Let_def
  by (simp only: quartic_vars.select_convs v4set_all)






subsection \<open>Depression parameters\<close>

text \<open>
  Claim C3. For every coefficient vector \<open>(A, B, C, D, E)\<close> with \<open>A \<noteq> 0\<close>, solveQuartic
  computes the depression parameters
  \<open>alpha = -3B\<^sup>2/(8A\<^sup>2) + C/A\<close>,
  \<open>beta = B\<^sup>3/(8A\<^sup>3) - BC/(2A\<^sup>2) + D/A\<close> and
  \<open>gamma = -3B\<^sup>4/(256A\<^sup>4) + B\<^sup>2C/(16A\<^sup>3) - BD/(4A\<^sup>2) + E/A\<close>,
  as expressions over the reals. (The code builds the powers by repeated multiplication.)
\<close>

theorem solveQuartic_depression_parameters:
  assumes "A \<noteq> 0"
  shows "q_alpha (solveQuartic_vars (A, B, C, D, E) realRoots)
           = - 3 * B\<^sup>2 / (8 * A\<^sup>2) + C / A
       \<and> q_beta (solveQuartic_vars (A, B, C, D, E) realRoots)
           = B ^ 3 / (8 * A ^ 3) - B * C / (2 * A\<^sup>2) + D / A
       \<and> q_gamma (solveQuartic_vars (A, B, C, D, E) realRoots)
           = - 3 * B ^ 4 / (256 * A ^ 4) + B\<^sup>2 * C / (16 * A ^ 3)
               - B * D / (4 * A\<^sup>2) + E / A"
  by (simp only: solveQuartic_vars_alpha solveQuartic_vars_beta solveQuartic_vars_gamma
        power2_eq_square power3_eq_cube power4_eq_xxxx mult.assoc)

theorem solveQuartic_depression_parameters_witness:
  "(1::real) \<noteq> 0
   \<and> q_alpha (solveQuartic_vars (1, 2, 3, 4, 5) (0, 0, 0, 0)) = 3 / 2
   \<and> q_beta (solveQuartic_vars (1, 2, 3, 4, 5) (0, 0, 0, 0)) = 2
   \<and> q_gamma (solveQuartic_vars (1, 2, 3, 4, 5) (0, 0, 0, 0)) = 57 / 16"
  using solveQuartic_depression_parameters [of 1 2 3 4 5 "(0, 0, 0, 0)"]
  by simp

subsection \<open>The resolvent value\<close>

text \<open>
  Claim C6. In solveQuartic the resolvent value is \<open>y = -5 alpha/6 - Q^(1/3)\<close> exactly when
  the real part of \<open>U = R^(1/3)\<close> is zero, and \<open>y = -5 alpha/6 - P/(3U) + U\<close> otherwise, where
  \<open>R = -Q/2 + sqrt(Q\<^sup>2/4 + P\<^sup>3/27)\<close> is computed on complex numbers with the principal square
  root and the principal power (\<open>P\<close> and \<open>Q\<close> are the reals \<open>-alpha\<^sup>2/12 - gamma\<close> and
  \<open>-alpha\<^sup>3/108 + alpha gamma/3 - beta\<^sup>2/8\<close> with imaginary part zero, and \<open>U\<close> is a cube root
  of \<open>R\<close>).
\<close>

theorem solveQuartic_resolvent_value:
  "let v = solveQuartic_vars factors realRoots in
     q_P v = complex_of_real (- (q_alpha v)\<^sup>2 / 12 - q_gamma v)
   \<and> q_Q v = complex_of_real (- ((q_alpha v) ^ 3) / 108 + q_alpha v * q_gamma v / 3
                                - (q_beta v)\<^sup>2 / 8)
   \<and> q_R v = - q_Q v / 2 + csqrt ((q_Q v)\<^sup>2 / 4 + (q_P v) ^ 3 / 27)
   \<and> q_U v = cpow (q_R v) (1 / 3)
   \<and> (q_U v) ^ 3 = q_R v
   \<and> (Re (q_U v) = 0 \<longrightarrow>
        q_y v = complex_of_real (- 5 * q_alpha v / 6) - cpow (q_Q v) (1 / 3))
   \<and> (Re (q_U v) \<noteq> 0 \<longrightarrow>
        q_y v = complex_of_real (- 5 * q_alpha v / 6) - q_P v / (3 * q_U v) + q_U v)"
proof -
  let ?v = "solveQuartic_vars factors realRoots"
  have P: "q_P ?v = complex_of_real (- (q_alpha ?v)\<^sup>2 / 12 - q_gamma ?v)"
    by (simp only: solveQuartic_vars_P [of factors realRoots] complex_of_real_def power2_eq_square)
  have Q: "q_Q ?v = complex_of_real (- ((q_alpha ?v) ^ 3) / 108 + q_alpha ?v * q_gamma ?v / 3
                                - (q_beta ?v)\<^sup>2 / 8)"
    by (simp only: solveQuartic_vars_Q [of factors realRoots] complex_of_real_def
          power3_eq_cube mult.assoc)
  have R: "q_R ?v = - q_Q ?v / 2 + csqrt ((q_Q ?v)\<^sup>2 / 4 + (q_P ?v) ^ 3 / 27)"
    by (simp only: solveQuartic_vars_R [of factors realRoots] cpow_2 cpow_3)
  have U: "q_U ?v = cpow (q_R ?v) (1 / 3)"
    by (rule solveQuartic_vars_U)
  have U3: "(q_U ?v) ^ 3 = q_R ?v"
    by (simp only: U cpow_third_cubed)
  have y1: "Re (q_U ?v) = 0 \<longrightarrow>
        q_y ?v = complex_of_real (- 5 * q_alpha ?v / 6) - cpow (q_Q ?v) (1 / 3)"
    using solveQuartic_vars_y [of factors realRoots] by simp
  have y2: "Re (q_U ?v) \<noteq> 0 \<longrightarrow>
        q_y ?v = complex_of_real (- 5 * q_alpha ?v / 6) - q_P ?v / (3 * q_U ?v) + q_U ?v"
    using solveQuartic_vars_y [of factors realRoots] by simp
  from P Q R U U3 y1 y2 show ?thesis
    unfolding Let_def by (intro conjI)
qed

theorem solveQuartic_resolvent_value_witness:
  "Re (q_U (solveQuartic_vars (1, 0, 0, 0, 0) (0, 0, 0, 0))) = 0
   \<and> q_y (solveQuartic_vars (1, 0, 0, 0, 0) (0, 0, 0, 0)) = 0
   \<and> Re (q_U (solveQuartic_vars (1, 0, 0, 0, - 1) (0, 0, 0, 0))) \<noteq> 0
   \<and> q_y (solveQuartic_vars (1, 0, 0, 0, - 1) (0, 0, 0, 0))
       = - 1 / (3 * q_U (solveQuartic_vars (1, 0, 0, 0, - 1) (0, 0, 0, 0)))
           + q_U (solveQuartic_vars (1, 0, 0, 0, - 1) (0, 0, 0, 0))"
proof -
  let ?v = "solveQuartic_vars (1, 0, 0, 0, 0) (0, 0, 0, 0)"
  let ?u = "solveQuartic_vars (1, 0, 0, 0, - 1) (0, 0, 0, 0)"
  have v: "q_alpha ?v = 0" "q_beta ?v = 0" "q_gamma ?v = 0"
    by (simp_all add: solveQuartic_vars_alpha solveQuartic_vars_beta solveQuartic_vars_gamma)
  have u: "q_alpha ?u = 0" "q_beta ?u = 0" "q_gamma ?u = - 1"
    by (simp_all add: solveQuartic_vars_alpha solveQuartic_vars_beta solveQuartic_vars_gamma)
  have a: "Re (q_U ?v) = 0 \<and> q_y ?v = 0"
    using solveQuartic_resolvent_value [of "(1, 0, 0, 0, 0)" "(0, 0, 0, 0)"]
    unfolding Let_def by (simp add: v Re_cpow_third_eq_0_iff cpow_def)
  have b: "Re (q_U ?u) \<noteq> 0 \<and> q_y ?u = - 1 / (3 * q_U ?u) + q_U ?u"
    using solveQuartic_resolvent_value [of "(1, 0, 0, 0, - 1)" "(0, 0, 0, 0)"]
    unfolding Let_def by (simp add: u Re_cpow_third_eq_0_iff)
  from a b show ?thesis by simp
qed

subsection \<open>The four roots and their order\<close>












section \<open>Properties of the pose solver\<close>

subsection \<open>The loop appends four poses\<close>

lemma backsubstitution_from:
  "backsubstitution i kp P1 N T rr sols =
     sols @ map (\<lambda>j. (bs_R (backsub kp P1 N T (v4get rr j)), bs_C (backsub kp P1 N T (v4get rr j))))
              [i ..< 4]"
proof (induction i kp P1 N T rr sols rule: backsubstitution.induct)
  case (1 i kp P1 N T realRoots solutions)
  show ?case
  proof (cases "i < 4")
    case True
    then have "[i ..< 4] = i # [i + 1 ..< 4]" by (simp add: upt_conv_Cons)
    with True "1.IH" [OF True refl refl] show ?thesis
      by (subst backsubstitution.simps) (simp add: Let_def)
  next
    case False
    then show ?thesis by (subst backsubstitution.simps) simp
  qed
qed

lemma backsubstitution_four:
  "\<exists>p0 p1 p2 p3. \<forall>sols. backsubstitution 0 kp P1 N T rr sols = sols @ [p0, p1, p2, p3]"
proof -
  let ?p = "\<lambda>j. (bs_R (backsub kp P1 N T (v4get rr j)), bs_C (backsub kp P1 N T (v4get rr j)))"
  have "[0 ..< 4] = [0, 1, 2, 3::nat]" by (simp add: upt_rec)
  then have "\<forall>sols. backsubstitution 0 kp P1 N T rr sols = sols @ [?p 0, ?p 1, ?p 2, ?p 3]"
    by (simp only: backsubstitution_from [of 0] list.map) simp
  then show ?thesis by blast
qed

lemma computePoses_degenerate:
  assumes "vnorm (cross (vsub (col wp 1) (col wp 0)) (vsub (col wp 2) (col wp 0))) = 0"
  shows "computePoses fv wp sols = (- 1, sols)"
  using assms by (simp add: computePoses_def Let_def)

lemma computePoses_regular:
  assumes "vnorm (cross (vsub (col wp 1) (col wp 0)) (vsub (col wp 2) (col wp 0))) \<noteq> 0"
  shows "\<exists>p0 p1 p2 p3. \<forall>sols. computePoses fv wp sols = (0, sols @ [p0, p1, p2, p3])"
proof -
  let ?fr = "select_frame fv wp (col wp 0) (col wp 1) (col wp 2)"
  let ?N = "world_frame (fr_P1 ?fr) (fr_P2 ?fr) (fr_P3 ?fr)"
  let ?kp = "extract_params ?fr ?N"
  let ?rr = "snd (solveQuartic (quartic_factors ?kp) (0, 0, 0, 0))"
  obtain p0 p1 p2 p3 where
    "\<forall>sols. backsubstitution 0 ?kp (fr_P1 ?fr) ?N (fr_T ?fr) ?rr sols = sols @ [p0, p1, p2, p3]"
    using backsubstitution_four by blast
  with assms have "\<forall>sols. computePoses fv wp sols = (0, sols @ [p0, p1, p2, p3])"
    by (simp add: computePoses_def Let_def)
  then show ?thesis by blast
qed

lemma example_wp_collinear:
  "vnorm (cross (vsub (col collinear_worldPoints 1)
                      (col collinear_worldPoints 0))
                (vsub (col collinear_worldPoints 2)
                      (col collinear_worldPoints 0))) = 0"
  by (simp add: vnorm_def)

lemma example_wp_regular:
  "vnorm (cross (vsub (col example_worldPoints 1)
                      (col example_worldPoints 0))
                (vsub (col example_worldPoints 2)
                      (col example_worldPoints 0))) \<noteq> 0"
  by (simp add: vnorm_def)

subsection \<open>Status and number of candidates\<close>

text \<open>
  Claim C1. computePoses returns the failure status \<open>-1\<close> if and only if the norm of the cross
  product of \<open>worldPoint1 - worldPoint0\<close> and \<open>worldPoint2 - worldPoint0\<close> is exactly zero (the
  test has no tolerance), and then it produces no candidate pose; for every other input it
  returns \<open>0\<close> and produces exactly four candidate poses, whatever their values are.
\<close>

theorem computePoses_status:
  "let degenerate =
         (vnorm (cross (vsub (col worldPoints 1) (col worldPoints 0))
                       (vsub (col worldPoints 2) (col worldPoints 0))) = 0);
       r = computePoses featureVectors worldPoints solutions
   in (fst r = - 1 \<longleftrightarrow> degenerate)
    \<and> (degenerate \<longrightarrow> snd r = solutions)
    \<and> (\<not> degenerate \<longrightarrow> fst r = 0 \<and> (\<exists>p0 p1 p2 p3. snd r = solutions @ [p0, p1, p2, p3]))"
proof (cases "vnorm (cross (vsub (col worldPoints 1) (col worldPoints 0))
                       (vsub (col worldPoints 2) (col worldPoints 0))) = 0")
  case True
  then show ?thesis
    by (simp add: computePoses_degenerate)
next
  case False
  from computePoses_regular [OF False, of featureVectors]
  obtain p0 p1 p2 p3 where
    "computePoses featureVectors worldPoints solutions = (0, solutions @ [p0, p1, p2, p3])"
    by blast
  with False show ?thesis by (simp del: split_paired_Ex)
qed

theorem computePoses_status_witness:
  "fst (computePoses example_directions
          collinear_worldPoints []) = - 1
   \<and> snd (computePoses example_directions
          collinear_worldPoints []) = []
   \<and> fst (computePoses example_directions
          example_worldPoints []) = 0
   \<and> length (snd (computePoses example_directions
          example_worldPoints [])) = 4"
proof -
  from example_wp_collinear
    computePoses_status [of "collinear_worldPoints"
      "example_directions" "[]"]
  have c: "fst (computePoses example_directions
          collinear_worldPoints []) = - 1
   \<and> snd (computePoses example_directions
          collinear_worldPoints []) = []"
    unfolding Let_def by blast
  from example_wp_regular
    computePoses_status [of "example_worldPoints"
      "example_directions" "[]"]
  have d: "fst (computePoses example_directions
          example_worldPoints []) = 0
   \<and> length (snd (computePoses example_directions
          example_worldPoints [])) = 4"
    unfolding Let_def by auto
  from c d show ?thesis by blast
qed

subsection \<open>The caller's container\<close>

text \<open>
  Claim C10. computePoses only appends to the caller's \<open>solutions\<close> container and never
  clears it or removes from it: on the degenerate (collinear) return the container is
  exactly as it was passed in, and otherwise exactly four entries are appended after the
  entries it already held. So "empty on failure, exactly four entries on success" holds of
  the container afterwards if and only if the caller passed an empty one.
\<close>

theorem computePoses_appends_only:
  "let degenerate =
         (vnorm (cross (vsub (col worldPoints 1) (col worldPoints 0))
                       (vsub (col worldPoints 2) (col worldPoints 0))) = 0);
       after = snd (computePoses featureVectors worldPoints solutions)
   in (degenerate \<longrightarrow> after = solutions)
    \<and> (\<not> degenerate \<longrightarrow> (\<exists>p0 p1 p2 p3. after = solutions @ [p0, p1, p2, p3]))
    \<and> (length after = (if degenerate then 0 else 4) \<longleftrightarrow> solutions = [])"
proof (cases "vnorm (cross (vsub (col worldPoints 1) (col worldPoints 0))
                       (vsub (col worldPoints 2) (col worldPoints 0))) = 0")
  case True
  then show ?thesis
    by (simp add: computePoses_degenerate)
next
  case False
  from computePoses_regular [OF False, of featureVectors]
  obtain p0 p1 p2 p3 where
    "computePoses featureVectors worldPoints solutions = (0, solutions @ [p0, p1, p2, p3])"
    by blast
  with False show ?thesis by (simp del: split_paired_Ex)
qed

theorem computePoses_appends_only_witness:
  "snd (computePoses example_directions
          collinear_worldPoints [example_pose]) = [example_pose]
   \<and> length (snd (computePoses example_directions
          example_worldPoints [example_pose])) = 5
   \<and> hd (snd (computePoses example_directions
          example_worldPoints [example_pose])) = example_pose
   \<and> length (snd (computePoses example_directions
          example_worldPoints [])) = 4"
proof -
  from example_wp_collinear
    computePoses_appends_only [of "collinear_worldPoints"
      "example_directions" "[example_pose]"]
  have a: "snd (computePoses example_directions
          collinear_worldPoints [example_pose]) = [example_pose]"
    unfolding Let_def by blast
  from example_wp_regular
    computePoses_appends_only [of "example_worldPoints"
      "example_directions" "[example_pose]"]
  have b: "length (snd (computePoses example_directions
          example_worldPoints [example_pose])) = 5
   \<and> hd (snd (computePoses example_directions
          example_worldPoints [example_pose])) = example_pose"
    unfolding Let_def by auto
  from example_wp_regular
    computePoses_appends_only [of "example_worldPoints"
      "example_directions" "[]"]
  have c: "length (snd (computePoses example_directions
          example_worldPoints [])) = 4"
    unfolding Let_def by auto
  from a b c show ?thesis by blast
qed

subsection \<open>The swap of the first two correspondences\<close>

lemma camera_frame_example_1:
  "camera_frame (1, 0, 0) (0, 1, 0) = ((1, 0, 0), (0, 1, 0), (0, 0, 1))"
  by (simp add: camera_frame_def Let_def vnorm_def transpose_mat_def)

lemma camera_frame_example_2:
  "camera_frame (0, 1, 0) (1, 0, 0) = ((0, 1, 0), (1, 0, 0), (0, 0, - 1))"
  by (simp add: camera_frame_def Let_def vnorm_def transpose_mat_def)

text \<open>
  Claim C4. In computePoses the third direction vector is expressed in the frame built from
  directions 0 and 1; if and only if its third coordinate is strictly positive, directions
  0 and 1 change places, world points 0 and 1 change places with them, and the camera frame
  is rebuilt from the swapped directions (and the third direction expressed in it again);
  everything after reads these variables. Otherwise all of them stay as first computed.
\<close>

theorem select_frame_swap:
  "let f3_in_frame = mat_vec (camera_frame (col featureVectors 0) (col featureVectors 1))
                       (col featureVectors 2);
       fr = select_frame featureVectors worldPoints
              (col worldPoints 0) (col worldPoints 1) (col worldPoints 2)
   in (vget f3_in_frame 2 > 0 \<longrightarrow>
         fr_f1 fr = col featureVectors 1 \<and> fr_f2 fr = col featureVectors 0
       \<and> fr_P1 fr = col worldPoints 1 \<and> fr_P2 fr = col worldPoints 0
       \<and> fr_P3 fr = col worldPoints 2
       \<and> fr_T fr = camera_frame (col featureVectors 1) (col featureVectors 0)
       \<and> fr_f3 fr = mat_vec (camera_frame (col featureVectors 1) (col featureVectors 0))
                       (col featureVectors 2))
    \<and> (\<not> vget f3_in_frame 2 > 0 \<longrightarrow>
         fr_f1 fr = col featureVectors 0 \<and> fr_f2 fr = col featureVectors 1
       \<and> fr_P1 fr = col worldPoints 0 \<and> fr_P2 fr = col worldPoints 1
       \<and> fr_P3 fr = col worldPoints 2
       \<and> fr_T fr = camera_frame (col featureVectors 0) (col featureVectors 1)
       \<and> fr_f3 fr = f3_in_frame)"
  by (simp add: select_frame_def Let_def)

theorem select_frame_swap_witness:
  "vget (mat_vec (camera_frame (1, 0, 0) (0, 1, 0)) (0, 0, 1)) 2 > 0
   \<and> select_frame example_directions
        example_worldPoints (0, 0, 0) (1, 0, 0) (0, 1, 0)
      = \<lparr>fr_f1 = (0, 1, 0), fr_f2 = (1, 0, 0), fr_f3 = (0, 0, - 1),
          fr_T = ((0, 1, 0), (1, 0, 0), (0, 0, - 1)),
          fr_P1 = (1, 0, 0), fr_P2 = (0, 0, 0), fr_P3 = (0, 1, 0)\<rparr>
   \<and> \<not> vget (mat_vec (camera_frame (1, 0, 0) (0, 1, 0)) (0, 0, - 1)) 2 > 0
   \<and> select_frame (mat_of_cols (1, 0, 0) (0, 1, 0) (0, 0, - 1))
        example_worldPoints (0, 0, 0) (1, 0, 0) (0, 1, 0)
      = \<lparr>fr_f1 = (1, 0, 0), fr_f2 = (0, 1, 0), fr_f3 = (0, 0, - 1),
          fr_T = ((1, 0, 0), (0, 1, 0), (0, 0, 1)),
          fr_P1 = (0, 0, 0), fr_P2 = (1, 0, 0), fr_P3 = (0, 1, 0)\<rparr>"
proof -
  have a: "vget (mat_vec (camera_frame (1, 0, 0) (0, 1, 0)) (0, 0, 1)) 2 > 0"
    by (simp add: camera_frame_example_1)
  have b: "\<not> vget (mat_vec (camera_frame (1, 0, 0) (0, 1, 0)) (0, 0, - 1)) 2 > 0"
    by (simp add: camera_frame_example_1)
  have c: "select_frame example_directions
        example_worldPoints (0, 0, 0) (1, 0, 0) (0, 1, 0)
      = \<lparr>fr_f1 = (0, 1, 0), fr_f2 = (1, 0, 0), fr_f3 = (0, 0, - 1),
          fr_T = ((0, 1, 0), (1, 0, 0), (0, 0, - 1)),
          fr_P1 = (1, 0, 0), fr_P2 = (0, 0, 0), fr_P3 = (0, 1, 0)\<rparr>"
    using a select_frame_swap [of "example_directions"
        "example_worldPoints"]
    unfolding Let_def
    by (simp add: camera_frame_example_1 camera_frame_example_2)
  have d: "select_frame (mat_of_cols (1, 0, 0) (0, 1, 0) (0, 0, - 1))
        example_worldPoints (0, 0, 0) (1, 0, 0) (0, 1, 0)
      = \<lparr>fr_f1 = (1, 0, 0), fr_f2 = (0, 1, 0), fr_f3 = (0, 0, - 1),
          fr_T = ((1, 0, 0), (0, 1, 0), (0, 0, 1)),
          fr_P1 = (0, 0, 0), fr_P2 = (1, 0, 0), fr_P3 = (0, 1, 0)\<rparr>"
    using b select_frame_swap [of "mat_of_cols (1, 0, 0) (0, 1, 0) (0, 0, - 1)"
        "example_worldPoints"]
    unfolding Let_def
    by (simp add: camera_frame_example_1 camera_frame_example_2)
  from a b c d show ?thesis by (intro conjI)
qed

subsection \<open>The sign of b\<close>








subsection \<open>The sign of the second angle's cosine\<close>

lemma backsub_cot_alpha:
  "bs_cot_alpha (backsub kp P1 N T x) =
     (- kp_f_1 kp * kp_p_1 kp / kp_f_2 kp - x * kp_p_2 kp + kp_d_12 kp * kp_b kp)
       / (- kp_f_1 kp * x * kp_p_2 kp / kp_f_2 kp + kp_p_1 kp - kp_d_12 kp)"
  unfolding backsub_def Let_def
  by (simp only: backsub_vars.select_convs)

lemma backsub_sin_alpha:
  "bs_sin_alpha (backsub kp P1 N T x) = sqrt (1 / ((bs_cot_alpha (backsub kp P1 N T x))\<^sup>2 + 1))"
  unfolding backsub_def Let_def
  by (simp only: backsub_vars.select_convs)

lemma backsub_cos_alpha:
  "bs_cos_alpha (backsub kp P1 N T x) =
     (if bs_cot_alpha (backsub kp P1 N T x) < 0
      then - sqrt (1 - (bs_sin_alpha (backsub kp P1 N T x))\<^sup>2)
      else sqrt (1 - (bs_sin_alpha (backsub kp P1 N T x))\<^sup>2))"
  unfolding backsub_def Let_def
  by (simp only: backsub_vars.select_convs)

lemma one_minus_sin_sq:
  fixes t :: real
  shows "1 - (sqrt (1 / (t\<^sup>2 + 1)))\<^sup>2 = t\<^sup>2 / (t\<^sup>2 + 1)"
proof -
  have p: "0 < t\<^sup>2 + 1" by (simp add: add_nonneg_pos)
  then have "(sqrt (1 / (t\<^sup>2 + 1)))\<^sup>2 = 1 / (t\<^sup>2 + 1)" by simp
  with p show ?thesis by (simp add: field_simps)
qed

text \<open>
  Claim C7. In the back-substitution of computePoses, for every quartic root, \<open>cos_alpha\<close> is
  first the non-negative square root \<open>sqrt(1 - sin_alpha\<^sup>2)\<close> and is then negated exactly when
  \<open>cot_alpha < 0\<close>; so the sign of \<open>cos_alpha\<close> is the sign of \<open>cot_alpha\<close>.
\<close>

theorem backsub_cos_alpha_sign:
  "let bs = backsub kp P1 N T root_i in
     bs_sin_alpha bs = sqrt (1 / ((bs_cot_alpha bs)\<^sup>2 + 1))
   \<and> 0 \<le> sqrt (1 - (bs_sin_alpha bs)\<^sup>2)
   \<and> (bs_cot_alpha bs < 0 \<longrightarrow> bs_cos_alpha bs = - sqrt (1 - (bs_sin_alpha bs)\<^sup>2))
   \<and> (\<not> bs_cot_alpha bs < 0 \<longrightarrow> bs_cos_alpha bs = sqrt (1 - (bs_sin_alpha bs)\<^sup>2))
   \<and> sgn (bs_cos_alpha bs) = sgn (bs_cot_alpha bs)"
proof -
  let ?bs = "backsub kp P1 N T root_i"
  let ?t = "bs_cot_alpha ?bs"
  have p: "0 < ?t\<^sup>2 + 1" by (simp add: add_nonneg_pos)
  have s: "bs_sin_alpha ?bs = sqrt (1 / (?t\<^sup>2 + 1))" by (rule backsub_sin_alpha)
  have r: "1 - (bs_sin_alpha ?bs)\<^sup>2 = ?t\<^sup>2 / (?t\<^sup>2 + 1)"
    unfolding s by (rule one_minus_sin_sq)
  have nn: "0 \<le> sqrt (1 - (bs_sin_alpha ?bs)\<^sup>2)"
    unfolding r using p by simp
  have c: "bs_cos_alpha ?bs = (if ?t < 0 then - sqrt (1 - (bs_sin_alpha ?bs)\<^sup>2)
                               else sqrt (1 - (bs_sin_alpha ?bs)\<^sup>2))"
    by (rule backsub_cos_alpha)
  have z: "sqrt (1 - (bs_sin_alpha ?bs)\<^sup>2) = 0 \<longleftrightarrow> ?t = 0"
    unfolding r using p by simp
  have sg: "sgn (bs_cos_alpha ?bs) = sgn ?t"
  proof (cases "?t < 0")
    case True
    with z nn have "0 < sqrt (1 - (bs_sin_alpha ?bs)\<^sup>2)" by linarith
    with True show ?thesis by (simp add: c)
  next
    case False
    show ?thesis
    proof (cases "?t = 0")
      case True
      with z show ?thesis by (simp add: c)
    next
      case nz: False
      with z nn have "0 < sqrt (1 - (bs_sin_alpha ?bs)\<^sup>2)" by linarith
      moreover from nz False have "0 < ?t" by linarith
      ultimately show ?thesis using False by (simp add: c)
    qed
  qed
  from s nn c sg show ?thesis unfolding Let_def by simp
qed

theorem backsub_cos_alpha_sign_witness:
  "bs_cot_alpha (backsub example_params (0, 0, 0) identity_mat identity_mat (1 / 2)) = 1 / 2
   \<and> bs_cos_alpha (backsub example_params (0, 0, 0) identity_mat identity_mat (1 / 2))
       = sqrt (1 - (bs_sin_alpha
                      (backsub example_params (0, 0, 0) identity_mat identity_mat (1 / 2)))\<^sup>2)
   \<and> sgn (bs_cos_alpha (backsub example_params (0, 0, 0) identity_mat identity_mat (1 / 2))) = 1
   \<and> bs_cot_alpha (backsub example_params (0, 0, 0) identity_mat identity_mat (- 1 / 2)) = - 1 / 2
   \<and> bs_cos_alpha (backsub example_params (0, 0, 0) identity_mat identity_mat (- 1 / 2))
       = - sqrt (1 - (bs_sin_alpha
                      (backsub example_params (0, 0, 0) identity_mat identity_mat (- 1 / 2)))\<^sup>2)
   \<and> sgn (bs_cos_alpha
             (backsub example_params (0, 0, 0) identity_mat identity_mat (- 1 / 2))) = - 1"
proof -
  let ?p = "backsub example_params (0, 0, 0) identity_mat identity_mat (1 / 2)"
  let ?m = "backsub example_params (0, 0, 0) identity_mat identity_mat (- 1 / 2)"
  have t: "bs_cot_alpha ?p = 1 / 2"
    by (simp add: backsub_cot_alpha)
  have t': "bs_cot_alpha ?m = - 1 / 2"
    by (simp add: backsub_cot_alpha)
  note p = backsub_cos_alpha_sign
    [of example_params "(0, 0, 0)" identity_mat identity_mat "1 / 2", unfolded Let_def t]
  note m = backsub_cos_alpha_sign
    [of example_params "(0, 0, 0)" identity_mat identity_mat "- 1 / 2", unfolded Let_def t']
  from p have p1: "\<not> (1 / 2 :: real) < 0 \<longrightarrow>
      bs_cos_alpha ?p = sqrt (1 - (bs_sin_alpha ?p)\<^sup>2)" by blast
  from p have p2: "sgn (bs_cos_alpha ?p) = sgn (1 / 2 :: real)" by blast
  from m have m1: "(- 1 / 2 :: real) < 0 \<longrightarrow>
      bs_cos_alpha ?m = - sqrt (1 - (bs_sin_alpha ?m)\<^sup>2)" by blast
  from m have m2: "sgn (bs_cos_alpha ?m) = sgn (- 1 / 2 :: real)" by blast
  from p1 have a1: "bs_cos_alpha ?p = sqrt (1 - (bs_sin_alpha ?p)\<^sup>2)" by simp
  from p2 have a2: "sgn (bs_cos_alpha ?p) = 1" by simp
  from m1 have b1: "bs_cos_alpha ?m = - sqrt (1 - (bs_sin_alpha ?m)\<^sup>2)" by simp
  from m2 have b2: "sgn (bs_cos_alpha ?m) = - 1" by simp
  from t a1 a2 t' b1 b2 show ?thesis by blast
qed

end
